theory Spec2Isabelle
  imports Main "HOL-Library.Word"
begin

section \<open>Status values\<close>

text \<open>
  Modelled from the spec: the \<^verbatim>\<open>Status\<close> class of \<^verbatim>\<open>util/status.h\<close>, which the two
  headers include and use but which is not among the sources. The spec's taxonomy
  (section 7) lists the kinds NotFound, IOError, ChecksumError and UnsupportedOperation and
  the non-error kinds OK and Done. The headers build statuses with \<^verbatim>\<open>Status::OK()\<close>,
  \<^verbatim>\<open>Status::Done()\<close> and \<^verbatim>\<open>Status::IOError(msg)\<close> and test them with \<^verbatim>\<open>IsOK()\<close>,
  \<^verbatim>\<open>IsDone()\<close> and \<^verbatim>\<open>IsNotFound()\<close>; a status is a kind together with a message.
\<close>

datatype Code = kOK | kNotFound | kIOError | kDone | kChecksumError | kUnsupportedOperation

datatype Status = Status (code: Code) (message: string)

definition Status_OK :: Status where
  "Status_OK = Status kOK ''''"

definition Status_Done :: Status where
  "Status_Done = Status kDone ''''"

definition Status_IOError :: "string \<Rightarrow> Status" where
  "Status_IOError msg = Status kIOError msg"

definition IsOK :: "Status \<Rightarrow> bool" where
  "IsOK s = (code s = kOK)"

definition IsDone :: "Status \<Rightarrow> bool" where
  "IsDone s = (code s = kDone)"

definition IsNotFound :: "Status \<Rightarrow> bool" where
  "IsNotFound s = (code s = kNotFound)"

definition IsIOError :: "Status \<Rightarrow> bool" where
  "IsIOError s = (code s = kIOError)"


section \<open>Memory and the C library routines of \<^verbatim>\<open>byte_array.h\<close>\<close>

text \<open>
  A \<^verbatim>\<open>char*\<close> is an address into one flat byte-addressed memory; \<^verbatim>\<open>nullptr\<close> is
  address 0. All views of one process read the same memory, so two views alias exactly
  when their addresses coincide. Addresses are natural numbers: adding an offset to a
  pointer does not wrap around, as it cannot inside one buffer.
\<close>

type_synonym byte = "8 word"
type_synonym addr = nat
type_synonym memory = "addr \<Rightarrow> byte"

definition nullptr :: addr where
  "nullptr = 0"

text \<open>The \<open>n\<close> bytes starting at \<open>p\<close>, in address order.\<close>

definition read_bytes :: "memory \<Rightarrow> addr \<Rightarrow> nat \<Rightarrow> byte list" where
  "read_bytes m p n = map m [p ..< p + n]"

text \<open>
  \<^verbatim>\<open>memcmp(p, q, n)\<close>: compares \<open>n\<close> bytes as unsigned chars and returns the difference
  of the first pair that differs, 0 when there is none.
\<close>

fun memcmp :: "memory \<Rightarrow> addr \<Rightarrow> addr \<Rightarrow> nat \<Rightarrow> int" where
  "memcmp m p q 0 = 0"
| "memcmp m p q (Suc n) =
     (if m p = m q then memcmp m (Suc p) (Suc q) n else uint (m p) - uint (m q))"

text \<open>\<^verbatim>\<open>memset(d, 0, n)\<close>, the padding step of \<^verbatim>\<open>strncpy\<close>.\<close>

fun zero_fill :: "memory \<Rightarrow> addr \<Rightarrow> nat \<Rightarrow> memory" where
  "zero_fill m d 0 = m"
| "zero_fill m d (Suc n) = zero_fill (m(d := 0)) (Suc d) n"

text \<open>
  \<^verbatim>\<open>strncpy(d, s, n)\<close>: copies characters of \<open>s\<close> up to and including the first NUL, at
  most \<open>n\<close> of them; when the NUL comes before \<open>n\<close> characters were copied, the rest of
  the \<open>n\<close> destination bytes is filled with NUL. Nothing after the source's NUL is read.
\<close>

fun strncpy :: "memory \<Rightarrow> addr \<Rightarrow> addr \<Rightarrow> nat \<Rightarrow> memory" where
  "strncpy m d s 0 = m"
| "strncpy m d s (Suc n) =
     (if m s = 0 then zero_fill m d (Suc n)
      else strncpy (m(d := m s)) (Suc d) (Suc s) n)"


section \<open>\<^verbatim>\<open>ByteArray\<close>\<close>

text \<open>
  Isabelle reserves names that end in an underscore, so the C++ member \<^verbatim>\<open>x_\<close> is the
  field \<open>m_x\<close> here, in every class.
\<close>

record ByteArray =
  m_data :: addr
  m_size :: "64 word"
  m_size_compressed :: "64 word"
  m_crc32_value :: "32 word"
  m_is_compressed :: bool

text \<open>
  The base constructor sets three of the five fields; \<^verbatim>\<open>size_compressed_\<close> and
  \<^verbatim>\<open>crc32_value_\<close> keep whatever the storage held, passed here as \<open>sc\<close> and \<open>crc\<close>.
\<close>

definition ByteArray_ctor :: "64 word \<Rightarrow> 32 word \<Rightarrow> ByteArray" where
  "ByteArray_ctor sc crc =
     \<lparr>m_data = nullptr, m_size = 0, m_size_compressed = sc, m_crc32_value = crc,
      m_is_compressed = False\<rparr>"

definition data :: "'a ByteArray_scheme \<Rightarrow> addr" where
  "data b = m_data b"

definition size_const :: "'a ByteArray_scheme \<Rightarrow> 64 word" where
  "size_const b = m_size b"

definition data_const :: "'a ByteArray_scheme \<Rightarrow> addr" where
  "data_const b = m_data b"

definition is_compressed :: "'a ByteArray_scheme \<Rightarrow> bool" where
  "is_compressed b = m_is_compressed b"

text \<open>\<^verbatim>\<open>operator ==\<close>: the size test first, then \<^verbatim>\<open>memcmp\<close> over \<^verbatim>\<open>size_\<close> bytes.\<close>

definition ByteArray_eq :: "memory \<Rightarrow> 'a ByteArray_scheme \<Rightarrow> 'b ByteArray_scheme \<Rightarrow> bool" where
  "ByteArray_eq m l r =
     (m_size l = size_const r \<and> memcmp m (m_data l) (data_const r) (unat (m_size l)) = 0)"

text \<open>\<^verbatim>\<open>ToString\<close>: \<^verbatim>\<open>std::string(data_, size_)\<close>, the \<^verbatim>\<open>size_\<close> bytes at \<^verbatim>\<open>data_\<close>.\<close>

definition ToString :: "memory \<Rightarrow> 'a ByteArray_scheme \<Rightarrow> byte list" where
  "ToString m b = read_bytes m (m_data b) (unat (m_size b))"

definition SetCompression :: "bool \<Rightarrow> 'a ByteArray_scheme \<Rightarrow> 'a ByteArray_scheme" where
  "SetCompression c b = b\<lparr>m_is_compressed := c\<rparr>"

definition SetSizeCompressed :: "64 word \<Rightarrow> 'a ByteArray_scheme \<Rightarrow> 'a ByteArray_scheme" where
  "SetSizeCompressed s b = b\<lparr>m_size_compressed := s\<rparr>"

text \<open>\<^verbatim>\<open>SetCRC32\<close> takes a 64-bit argument and stores it in a 32-bit field.\<close>

definition SetCRC32 :: "64 word \<Rightarrow> 'a ByteArray_scheme \<Rightarrow> 'a ByteArray_scheme" where
  "SetCRC32 c b = b\<lparr>m_crc32_value := ucast c\<rparr>"

text \<open>The base \<^verbatim>\<open>data_chunk\<close>: the view itself, fully materialized.\<close>

definition ByteArray_data_chunk :: "'a ByteArray_scheme \<Rightarrow> Status \<times> addr \<times> 64 word" where
  "ByteArray_data_chunk b = (Status_Done, m_data b, m_size b)"


section \<open>\<^verbatim>\<open>SimpleByteArray\<close>: a borrowed view\<close>

definition SimpleByteArray_ctor :: "64 word \<Rightarrow> 32 word \<Rightarrow> addr \<Rightarrow> 64 word \<Rightarrow> ByteArray" where
  "SimpleByteArray_ctor sc crc data_in size_in =
     (ByteArray_ctor sc crc)\<lparr>m_data := data_in, m_size := size_in\<rparr>"


section \<open>\<^verbatim>\<open>Mmap\<close>\<close>

text \<open>
  The constructor calls \<^verbatim>\<open>open\<close> and \<^verbatim>\<open>mmap\<close> of the operating system and the logging
  macros. The two system calls are parameters: \<open>sys_open\<close> gives the descriptor for a
  path (negative on failure), \<open>sys_mmap\<close> the address for a length and a descriptor
  (\<^verbatim>\<open>MAP_FAILED\<close> on failure). The log lines a call writes are returned with its outcome;
  the text \<^verbatim>\<open>strerror(errno)\<close> is not modelled. A call either returns the object or ends the
  process through \<^verbatim>\<open>exit\<close>.
\<close>

datatype log_level = EMERG | TRACE | DEBUG

type_synonym log_line = "log_level \<times> string \<times> string"

datatype 'a outcome = Returns 'a | Exits int

record Mmap =
  m_fd :: "32 word"
  m_filesize :: "32 word"
  m_datafile :: addr
  m_filepath :: string

text \<open>\<^verbatim>\<open>MAP_FAILED\<close> is \<^verbatim>\<open>(void *) -1\<close>, the highest 64-bit address.\<close>

definition MAP_FAILED :: addr where
  "MAP_FAILED = 2 ^ 64 - 1"

text \<open>
  The branch for a failed \<^verbatim>\<open>open\<close> writes its log line and goes on (its \<^verbatim>\<open>return\<close> is
  commented out in the source); the branch for a failed \<^verbatim>\<open>mmap\<close> writes its log line and
  calls \<^verbatim>\<open>exit(-1)\<close>. The \<^verbatim>\<open>int\<close> length is converted to \<^verbatim>\<open>size_t\<close> by sign extension.
\<close>

definition Mmap_ctor ::
  "(string \<Rightarrow> 32 word) \<Rightarrow> (64 word \<Rightarrow> 32 word \<Rightarrow> addr) \<Rightarrow> string \<Rightarrow> 32 word
   \<Rightarrow> log_line list \<times> Mmap outcome" where
  "Mmap_ctor sys_open sys_mmap filepath filesize =
     (let fd = sys_open filepath;
          log1 = (if sint fd < 0
                  then [(EMERG, ''ByteArrayMmap()::ctor()'',
                         ''Count not open file ['' @ filepath @ '']'')]
                  else []);
          log2 = log1 @ [(TRACE, ''StorageEngine::GetEntry()'', ''open file: ok'')];
          datafile = sys_mmap (scast filesize) fd
      in if datafile = MAP_FAILED
         then (log2 @ [(EMERG, ''Could not mmap() file: %s'', [])], Exits (- 1))
         else (log2, Returns \<lparr>m_fd = fd, m_filesize = filesize, m_datafile = datafile,
                               m_filepath = filepath\<rparr>))"


section \<open>\<^verbatim>\<open>SharedMmappedByteArray\<close>\<close>

text \<open>
  The compressor and the checksum object are members whose classes (\<^verbatim>\<open>compressor.h\<close>,
  \<^verbatim>\<open>crc32c.h\<close>) are not among the sources: their states are the type parameters \<open>'c\<close> and
  \<open>'h\<close>, and their member functions are parameters of the operations that call them.
  \<^verbatim>\<open>mmap_\<close> is a shared pointer, empty after the default constructor.
\<close>

record ('c, 'h) SharedMmappedByteArray = ByteArray +
  m_compressor :: 'c
  m_crc32 :: 'h
  m_mmap :: "Mmap option"
  m_offset :: "64 word"

text \<open>
  The constructor from a path: \<open>c_reset\<close> and \<open>h_reset\<close> are the states that
  \<^verbatim>\<open>compressor_.Reset()\<close> and \<^verbatim>\<open>crc32_.reset()\<close> leave; \<open>off\<close> is the unset \<^verbatim>\<open>offset_\<close>.
\<close>

definition SharedMmappedByteArray_ctor ::
  "(string \<Rightarrow> 32 word) \<Rightarrow> (64 word \<Rightarrow> 32 word \<Rightarrow> addr) \<Rightarrow> 'c \<Rightarrow> 'h
   \<Rightarrow> 64 word \<Rightarrow> 32 word \<Rightarrow> 64 word \<Rightarrow> string \<Rightarrow> 32 word
   \<Rightarrow> log_line list \<times> ('c, 'h) SharedMmappedByteArray outcome" where
  "SharedMmappedByteArray_ctor sys_open sys_mmap c_reset h_reset sc crc off filepath filesize =
     (case Mmap_ctor sys_open sys_mmap filepath filesize of
        (lg, Exits n) \<Rightarrow> (lg, Exits n)
      | (lg, Returns mm) \<Rightarrow>
          (lg, Returns \<lparr>m_data = m_datafile mm, m_size = 0, m_size_compressed = sc,
                         m_crc32_value = crc, m_is_compressed = False,
                         m_compressor = c_reset, m_crc32 = h_reset, m_mmap = Some mm,
                         m_offset = off\<rparr>))"

text \<open>
  \<^verbatim>\<open>SetOffset\<close> reads \<^verbatim>\<open>mmap_->datafile_\<close>: on an empty \<^verbatim>\<open>mmap_\<close> that is a null
  dereference, the result \<open>None\<close> here.
\<close>

definition SetOffset ::
  "64 word \<Rightarrow> 64 word \<Rightarrow> ('c, 'h) SharedMmappedByteArray
   \<Rightarrow> ('c, 'h) SharedMmappedByteArray option" where
  "SetOffset offset sz v =
     (case m_mmap v of
        None \<Rightarrow> None
      | Some mm \<Rightarrow>
          Some (v\<lparr>m_offset := offset, m_data := m_datafile mm + unat offset, m_size := sz\<rparr>))"

text \<open>\<^verbatim>\<open>AddSize(int add)\<close>: the \<^verbatim>\<open>int\<close> is sign-extended to 64 bits and added, wrapping.\<close>

definition AddSize :: "32 word \<Rightarrow> 'a ByteArray_scheme \<Rightarrow> 'a ByteArray_scheme" where
  "AddSize add v = v\<lparr>m_size := m_size v + scast add\<rparr>"

text \<open>
  One call of \<^verbatim>\<open>compressor_.Uncompress(data_, size_compressed_, data_out, size_out, &frame,
  &size_frame)\<close>: from the compressor's state, the memory, the source address and the
  compressed size it gives its status, the four out-parameters as it leaves them
  (\<^verbatim>\<open>*data_out\<close> and \<^verbatim>\<open>*size_out\<close> are \<^verbatim>\<open>nullptr\<close> and 0 before the call), its next state,
  and the memory after the call (the decoded bytes are in a buffer it allocates).
\<close>

record 'c uncompressed =
  u_status :: Status
  u_dest :: addr
  u_size_dest :: "64 word"
  u_frame :: addr
  u_size_frame :: "64 word"
  u_compressor :: 'c
  u_memory :: memory

type_synonym 'c Uncompress = "'c \<Rightarrow> memory \<Rightarrow> addr \<Rightarrow> 64 word \<Rightarrow> 'c uncompressed"

text \<open>
  What one call of \<^verbatim>\<open>data_chunk\<close> leaves: its status, the out-parameters, the view and the
  memory.
\<close>

record ('c, 'h) chunk =
  c_status :: Status
  c_data_out :: addr
  c_size_out :: "64 word"
  c_view :: "('c, 'h) SharedMmappedByteArray"
  c_memory :: memory

text \<open>
  \<^verbatim>\<open>SharedMmappedByteArray::data_chunk\<close>, with \<open>crc_get\<close> for \<^verbatim>\<open>crc32_.get()\<close> and
  \<open>crc_stream\<close> for \<^verbatim>\<open>crc32_.stream(frame, size_frame)\<close>, which reads the \<open>size_frame\<close>
  bytes at \<open>frame\<close>. The message written to \<^verbatim>\<open>stderr\<close> on a bad checksum is not modelled.
\<close>

definition data_chunk ::
  "'c Uncompress \<Rightarrow> ('h \<Rightarrow> 32 word) \<Rightarrow> ('h \<Rightarrow> byte list \<Rightarrow> 'h) \<Rightarrow> memory
   \<Rightarrow> ('c, 'h) SharedMmappedByteArray \<Rightarrow> ('c, 'h) chunk" where
  "data_chunk Uncompress crc_get crc_stream mem v =
     (if m_size_compressed v = 0
      then \<lparr>c_status = Status_Done, c_data_out = m_data v, c_size_out = m_size v,
            c_view = v, c_memory = mem\<rparr>
      else
        let u = Uncompress (m_compressor v) mem (m_data v) (m_size_compressed v);
            s = u_status u;
            v1 = v\<lparr>m_compressor := u_compressor u\<rparr>
        in if IsDone s \<and> crc_get (m_crc32 v1) \<noteq> m_crc32_value v1
           then \<lparr>c_status = Status_IOError ''Bad CRC32'', c_data_out = u_dest u,
                 c_size_out = u_size_dest u, c_view = v1, c_memory = u_memory u\<rparr>
           else if \<not> IsOK s
           then \<lparr>c_status = s, c_data_out = u_dest u, c_size_out = u_size_dest u,
                 c_view = v1, c_memory = u_memory u\<rparr>
           else \<lparr>c_status = Status_OK, c_data_out = u_dest u, c_size_out = u_size_dest u,
                 c_view = v1\<lparr>m_crc32 :=
                   crc_stream (m_crc32 v1)
                     (read_bytes (u_memory u) (u_frame u) (unat (u_size_frame u)))\<rparr>,
                 c_memory = u_memory u\<rparr>)"

text \<open>
  A caller reads a compressed value by calling \<^verbatim>\<open>data_chunk\<close> again and again on the same
  view: the results of the first \<open>n\<close> calls, in order.
\<close>

fun data_chunk_calls ::
  "'c Uncompress \<Rightarrow> ('h \<Rightarrow> 32 word) \<Rightarrow> ('h \<Rightarrow> byte list \<Rightarrow> 'h) \<Rightarrow> nat \<Rightarrow> memory
   \<Rightarrow> ('c, 'h) SharedMmappedByteArray \<Rightarrow> ('c, 'h) chunk list" where
  "data_chunk_calls U g st 0 mem v = []"
| "data_chunk_calls U g st (Suc n) mem v =
     (let r = data_chunk U g st mem v
      in r # data_chunk_calls U g st n (c_memory r) (c_view r))"

text \<open>The compressor's own results over \<open>n\<close> successive calls on one source.\<close>

fun Uncompress_calls ::
  "'c Uncompress \<Rightarrow> nat \<Rightarrow> 'c \<Rightarrow> memory \<Rightarrow> addr \<Rightarrow> 64 word \<Rightarrow> 'c uncompressed list" where
  "Uncompress_calls U 0 c mem src sz = []"
| "Uncompress_calls U (Suc n) c mem src sz =
     (let u = U c mem src sz
      in u # Uncompress_calls U n (u_compressor u) (u_memory u) src sz)"

text \<open>The frame bytes and the decoded bytes that one compressor result points at.\<close>

definition frame_bytes :: "'c uncompressed \<Rightarrow> byte list" where
  "frame_bytes u = read_bytes (u_memory u) (u_frame u) (unat (u_size_frame u))"

definition decoded_bytes :: "'c uncompressed \<Rightarrow> byte list" where
  "decoded_bytes u = read_bytes (u_memory u) (u_dest u) (unat (u_size_dest u))"

text \<open>The checksum state after streaming a list of byte blocks, one \<open>stream\<close> call each.\<close>

definition stream_all :: "('h \<Rightarrow> byte list \<Rightarrow> 'h) \<Rightarrow> 'h \<Rightarrow> byte list list \<Rightarrow> 'h" where
  "stream_all st h blocks = foldl st h blocks"


section \<open>\<^verbatim>\<open>AllocatedByteArray\<close>\<close>

text \<open>
  \<^verbatim>\<open>new char[n]\<close> gives the address of a fresh block; the address it gives is the
  parameter \<open>p\<close> of the constructors.
\<close>

definition AllocatedByteArray_ctor ::
  "64 word \<Rightarrow> 32 word \<Rightarrow> addr \<Rightarrow> memory \<Rightarrow> addr \<Rightarrow> 64 word \<Rightarrow> memory \<times> ByteArray" where
  "AllocatedByteArray_ctor sc crc p mem data_in size_in =
     (let b = (ByteArray_ctor sc crc)\<lparr>m_size := size_in\<rparr>;
          b = b\<lparr>m_data := p\<rparr>
      in (strncpy mem (m_data b) data_in (unat (m_size b)), b))"

definition AllocatedByteArray_ctor_size :: "64 word \<Rightarrow> 32 word \<Rightarrow> addr \<Rightarrow> 64 word \<Rightarrow> ByteArray" where
  "AllocatedByteArray_ctor_size sc crc p size_in =
     (ByteArray_ctor sc crc)\<lparr>m_size := size_in, m_data := p\<rparr>"


section \<open>\<^verbatim>\<open>SharedAllocatedByteArray\<close>\<close>

text \<open>
  \<^verbatim>\<open>data_allocated_\<close> is a shared pointer; its \<^verbatim>\<open>get()\<close> is the address it holds,
  \<^verbatim>\<open>nullptr\<close> when it is empty.
\<close>

record SharedAllocatedByteArray = ByteArray +
  m_data_allocated :: addr
  m_offset_alloc :: "64 word"

definition SharedAllocatedByteArray_ctor ::
  "64 word \<Rightarrow> 32 word \<Rightarrow> 64 word \<Rightarrow> addr \<Rightarrow> 64 word \<Rightarrow> SharedAllocatedByteArray" where
  "SharedAllocatedByteArray_ctor sc crc off p size_in =
     \<lparr>m_data = p, m_size = size_in, m_size_compressed = sc, m_crc32_value = crc,
      m_is_compressed = False, m_data_allocated = p, m_offset_alloc = off\<rparr>"

definition SetOffset_alloc ::
  "64 word \<Rightarrow> 64 word \<Rightarrow> SharedAllocatedByteArray \<Rightarrow> SharedAllocatedByteArray" where
  "SetOffset_alloc offset sz v =
     v\<lparr>m_offset_alloc := offset, m_data := m_data_allocated v + unat offset, m_size := sz\<rparr>"


section \<open>\<^verbatim>\<open>Snapshot\<close>\<close>

text \<open>
  A snapshot holds three raw pointers: to the live engine, to its private read-only engine
  and to the vector of file ids. The objects they point to live in a store, a map from
  addresses to objects; \<^verbatim>\<open>delete\<close> removes the object at an address. The live and the
  read-only engine are both of class \<^verbatim>\<open>StorageEngine\<close>, which is not among the sources: an
  engine's state is the type parameter \<open>'e\<close>, and its member functions \<^verbatim>\<open>Get\<close> and
  \<^verbatim>\<open>ReleaseSnapshot\<close> are parameters of the operations that call them. The store also keeps,
  in order, the calls a snapshot makes on the objects it points to.
\<close>

datatype call =
  Delete_fileids_iterator addr
| ReleaseSnapshot_call addr "32 word"
| Delete_se_readonly addr

record 'e world =
  w_engines :: "addr \<rightharpoonup> 'e"
  w_vectors :: "addr \<rightharpoonup> 32 word list"
  w_calls :: "call list"

text \<open>What C++ leaves undefined: a call through a pointer to no object, a second delete.\<close>

datatype fault = InvalidPointer | DoubleDelete

text \<open>
  The mutex \<^verbatim>\<open>mutex_close_\<close> is taken on entry to \<^verbatim>\<open>Close\<close> and given back on every way
  out; calls are modelled one after the other, so it is free at every call and has no field.
\<close>

record 'o Snapshot =
  m_db_options :: 'o
  m_dbname :: string
  m_se_live :: addr
  m_se_readonly :: addr
  m_snapshot_id :: "32 word"
  m_fileids_iterator :: addr
  m_is_closed :: bool

definition Snapshot_ctor ::
  "'o \<Rightarrow> string \<Rightarrow> addr \<Rightarrow> addr \<Rightarrow> addr \<Rightarrow> 32 word \<Rightarrow> 'o Snapshot" where
  "Snapshot_ctor db_options dbname se_live se_readonly fileids_iterator snapshot_id =
     \<lparr>m_db_options = db_options, m_dbname = dbname, m_se_live = se_live,
      m_se_readonly = se_readonly, m_snapshot_id = snapshot_id,
      m_fileids_iterator = fileids_iterator, m_is_closed = False\<rparr>"

definition Open :: "'o Snapshot \<Rightarrow> Status" where
  "Open s = Status_OK"

text \<open>\<^verbatim>\<open>delete p\<close>: nothing for \<^verbatim>\<open>nullptr\<close>, a fault when no object is at \<open>p\<close>.\<close>

definition delete_vector :: "addr \<Rightarrow> 'e world \<Rightarrow> fault + 'e world" where
  "delete_vector p w =
     (let w1 = w\<lparr>w_calls := w_calls w @ [Delete_fileids_iterator p]\<rparr>
      in if p = nullptr then Inr w1
         else case w_vectors w p of
                None \<Rightarrow> Inl DoubleDelete
              | Some ids \<Rightarrow> Inr (w1\<lparr>w_vectors := (w_vectors w)(p := None)\<rparr>))"

definition delete_engine :: "addr \<Rightarrow> 'e world \<Rightarrow> fault + 'e world" where
  "delete_engine p w =
     (let w1 = w\<lparr>w_calls := w_calls w @ [Delete_se_readonly p]\<rparr>
      in if p = nullptr then Inr w1
         else case w_engines w p of
                None \<Rightarrow> Inl DoubleDelete
              | Some e \<Rightarrow> Inr (w1\<lparr>w_engines := (w_engines w)(p := None)\<rparr>))"

text \<open>\<^verbatim>\<open>se->ReleaseSnapshot(id)\<close> through a raw pointer, \<open>RS\<close> being the engine's member.\<close>

definition call_ReleaseSnapshot ::
  "('e \<Rightarrow> 32 word \<Rightarrow> 'e) \<Rightarrow> addr \<Rightarrow> 32 word \<Rightarrow> 'e world \<Rightarrow> fault + 'e world" where
  "call_ReleaseSnapshot RS p snapshot_id w =
     (case w_engines w p of
        None \<Rightarrow> Inl InvalidPointer
      | Some e \<Rightarrow>
          Inr (w\<lparr>w_engines := (w_engines w)(p \<mapsto> RS e snapshot_id),
                 w_calls := w_calls w @ [ReleaseSnapshot_call p snapshot_id]\<rparr>))"

definition Close ::
  "('e \<Rightarrow> 32 word \<Rightarrow> 'e) \<Rightarrow> 'o Snapshot \<times> 'e world \<Rightarrow> fault + 'o Snapshot \<times> 'e world" where
  "Close RS sw =
     (case sw of (s, w) \<Rightarrow>
        if m_is_closed s then Inr (s, w)
        else
          let s1 = s\<lparr>m_is_closed := True\<rparr>
          in case delete_vector (m_fileids_iterator s1) w of
               Inl f \<Rightarrow> Inl f
             | Inr w1 \<Rightarrow>
                 (case call_ReleaseSnapshot RS (m_se_live s1) (m_snapshot_id s1) w1 of
                    Inl f \<Rightarrow> Inl f
                  | Inr w2 \<Rightarrow>
                      (case delete_engine (m_se_readonly s1) w2 of
                         Inl f \<Rightarrow> Inl f
                       | Inr w3 \<Rightarrow> Inr (s1, w3))))"

text \<open>The destructor writes one log line and calls \<^verbatim>\<open>Close\<close>.\<close>

definition Snapshot_dtor_log :: "log_line list" where
  "Snapshot_dtor_log = [(EMERG, ''Snapshot::dtor()'', ''call'')]"

definition Snapshot_dtor ::
  "('e \<Rightarrow> 32 word \<Rightarrow> 'e) \<Rightarrow> 'o Snapshot \<times> 'e world \<Rightarrow> fault + 'o Snapshot \<times> 'e world" where
  "Snapshot_dtor RS sw = Close RS sw"

text \<open>A run of explicit \<^verbatim>\<open>Close()\<close> calls and destructor runs, stopping at a fault.\<close>

datatype lifecycle = Close_call | Destructor

fun lifecycle_step ::
  "('e \<Rightarrow> 32 word \<Rightarrow> 'e) \<Rightarrow> lifecycle \<Rightarrow> 'o Snapshot \<times> 'e world
   \<Rightarrow> fault + 'o Snapshot \<times> 'e world" where
  "lifecycle_step RS Close_call sw = Close RS sw"
| "lifecycle_step RS Destructor sw = Snapshot_dtor RS sw"

fun lifecycle_run ::
  "('e \<Rightarrow> 32 word \<Rightarrow> 'e) \<Rightarrow> lifecycle list \<Rightarrow> 'o Snapshot \<times> 'e world
   \<Rightarrow> fault + 'o Snapshot \<times> 'e world" where
  "lifecycle_run RS [] sw = Inr sw"
| "lifecycle_run RS (c # cs) sw =
     (case lifecycle_step RS c sw of
        Inl f \<Rightarrow> Inl f
      | Inr sw1 \<Rightarrow> lifecycle_run RS cs sw1)"

text \<open>
  \<^verbatim>\<open>Get\<close>: \<open>EG\<close> is the engine's \<^verbatim>\<open>Get(key, value_out)\<close>, giving its status, what it
  leaves in \<^verbatim>\<open>*value_out\<close> and its next state. The three branches differ in the line they
  write to the trace log.
\<close>

record ('v, 'o, 'e) got =
  g_log :: "log_line list"
  g_status :: Status
  g_value_out :: 'v
  g_snapshot :: "'o Snapshot"
  g_world :: "'e world"

definition Get ::
  "('e \<Rightarrow> 'k \<Rightarrow> 'v \<Rightarrow> Status \<times> 'v \<times> 'e) \<Rightarrow> 'r \<Rightarrow> 'k \<Rightarrow> 'v \<Rightarrow> 'o Snapshot \<Rightarrow> 'e world
   \<Rightarrow> fault + ('v, 'o, 'e) got" where
  "Get EG read_options key value_out s w =
     (case w_engines w (m_se_readonly s) of
        None \<Rightarrow> Inl InvalidPointer
      | Some e \<Rightarrow>
          (case EG e key value_out of
             (st, value_out1, e1) \<Rightarrow>
               let w1 = w\<lparr>w_engines := (w_engines w)(m_se_readonly s \<mapsto> e1)\<rparr>
               in if IsNotFound st
                  then Inr \<lparr>g_log = [(TRACE, ''Snapshot::Get()'', ''not found in storage engine'')],
                            g_status = st, g_value_out = value_out1, g_snapshot = s,
                            g_world = w1\<rparr>
                  else if IsOK st
                  then Inr \<lparr>g_log = [(TRACE, ''Snapshot::Get()'', ''found in storage engine'')],
                            g_status = st, g_value_out = value_out1, g_snapshot = s,
                            g_world = w1\<rparr>
                  else Inr \<lparr>g_log = [(TRACE, ''Snapshot::Get()'', ''unidentified error'')],
                            g_status = st, g_value_out = value_out1, g_snapshot = s,
                            g_world = w1\<rparr>))"

text \<open>The three write operations touch no member and no object: a status and nothing else.\<close>

definition Put ::
  "'wo \<Rightarrow> 'k \<Rightarrow> 'k \<Rightarrow> 'o Snapshot \<times> 'e world \<Rightarrow> Status \<times> 'o Snapshot \<times> 'e world" where
  "Put write_options key chunk sw = (Status_IOError ''Not supported'', sw)"

definition PutChunk ::
  "'wo \<Rightarrow> 'k \<Rightarrow> 'k \<Rightarrow> 64 word \<Rightarrow> 64 word \<Rightarrow> 'o Snapshot \<times> 'e world
   \<Rightarrow> Status \<times> 'o Snapshot \<times> 'e world" where
  "PutChunk write_options key chunk offset_chunk size_value sw =
     (Status_IOError ''Not supported'', sw)"

definition Remove ::
  "'wo \<Rightarrow> 'k \<Rightarrow> 'o Snapshot \<times> 'e world \<Rightarrow> Status \<times> 'o Snapshot \<times> 'e world" where
  "Remove write_options key sw = (Status_IOError ''Not supported'', sw)"

definition NewSnapshot :: "'o Snapshot \<Rightarrow> addr" where
  "NewSnapshot s = nullptr"


section \<open>Example collaborators\<close>

text \<open>
  Concrete stand-ins for the collaborators that are parameters above, used to run the
  operations on concrete inputs. They are examples of what a caller can plug in, not the
  engine's own classes.
\<close>

text \<open>A memory that holds the bytes \<open>bs\<close> from address \<open>p\<close> on and \<open>m\<close> elsewhere.\<close>

fun write_bytes :: "memory \<Rightarrow> addr \<Rightarrow> byte list \<Rightarrow> memory" where
  "write_bytes m p [] = m"
| "write_bytes m p (b # bs) = write_bytes (m(p := b)) (Suc p) bs"

definition zero_memory :: memory where
  "zero_memory = (\<lambda>a. 0)"

text \<open>A checksum that multiplies by 31 and adds each byte, in 32 bits.\<close>

definition ex_crc_stream :: "32 word \<Rightarrow> byte list \<Rightarrow> 32 word" where
  "ex_crc_stream h bs = foldl (\<lambda>a b. a * 31 + ucast b) h bs"

definition ex_crc_get :: "32 word \<Rightarrow> 32 word" where
  "ex_crc_get h = h"

text \<open>
  A codec of stored blocks: a frame is one length byte \<open>n > 0\<close> followed by \<open>n\<close> payload
  bytes, and decodes to its payload, copied to a buffer taken from a free region. Its
  state is the offset of the next frame and the start of the free region. It reports Done
  once the offset has reached the compressed size, and an I/O error on a zero length byte.
\<close>

record ex_codec =
  ex_offset :: nat
  ex_free :: addr

definition ex_Uncompress :: "ex_codec Uncompress" where
  "ex_Uncompress c mem src size_total =
     (if ex_offset c = unat size_total
      then \<lparr>u_status = Status_Done, u_dest = nullptr, u_size_dest = 0, u_frame = nullptr,
            u_size_frame = 0, u_compressor = c, u_memory = mem\<rparr>
      else
        let n = unat (mem (src + ex_offset c))
        in if n = 0
           then \<lparr>u_status = Status_IOError ''decode failed'', u_dest = nullptr,
                 u_size_dest = 0, u_frame = nullptr, u_size_frame = 0, u_compressor = c,
                 u_memory = mem\<rparr>
           else \<lparr>u_status = Status_OK, u_dest = ex_free c, u_size_dest = of_nat n,
                 u_frame = src + ex_offset c, u_size_frame = of_nat (Suc n),
                 u_compressor = \<lparr>ex_offset = ex_offset c + Suc n, ex_free = ex_free c + n\<rparr>,
                 u_memory =
                   write_bytes mem (ex_free c) (read_bytes mem (src + ex_offset c + 1) n)\<rparr>)"

text \<open>
  An engine that is a list of key-value pairs and the snapshot ids registered with it.
\<close>

record ex_engine =
  ex_pairs :: "(byte list \<times> byte list) list"
  ex_snapshots :: "32 word list"

definition ex_Get :: "ex_engine \<Rightarrow> byte list \<Rightarrow> byte list \<Rightarrow> Status \<times> byte list \<times> ex_engine" where
  "ex_Get e key value_out =
     (case map_of (ex_pairs e) key of
        None \<Rightarrow> (Status kNotFound ''Unable to find the entry in the storage engine'', value_out, e)
      | Some v \<Rightarrow> (Status_OK, v, e))"

definition ex_ReleaseSnapshot :: "ex_engine \<Rightarrow> 32 word \<Rightarrow> ex_engine" where
  "ex_ReleaseSnapshot e snapshot_id = e\<lparr>ex_snapshots := removeAll snapshot_id (ex_snapshots e)\<rparr>"





text \<open>
  A memory holding two frames of the example codec at address 16 (payloads \<open>[97, 98]\<close> and
  \<open>[99]\<close>), and one whose first length byte is zero.
\<close>

definition ex_memory :: memory where
  "ex_memory = write_bytes zero_memory 16 [2, 97, 98, 1, 99]"

definition ex_memory_bad :: memory where
  "ex_memory_bad = write_bytes zero_memory 16 [0, 97, 98, 1, 99]"

text \<open>
  A view of the five mapped bytes at 16 with compressed size \<open>sc\<close> and stored checksum
  \<open>crc\<close>, its codec and checksum freshly reset, and a shared heap view of the same bytes.
\<close>

definition ex_view :: "64 word \<Rightarrow> 32 word \<Rightarrow> (ex_codec, 32 word) SharedMmappedByteArray" where
  "ex_view sc crc =
     \<lparr>m_data = 16, m_size = 3, m_size_compressed = sc, m_crc32_value = crc,
      m_is_compressed = (sc \<noteq> 0), m_compressor = \<lparr>ex_offset = 0, ex_free = 64\<rparr>, m_crc32 = 0,
      m_mmap = Some \<lparr>m_fd = 3, m_filesize = 5, m_datafile = 16, m_filepath = ''/db/00000001''\<rparr>,
      m_offset = 0\<rparr>"

definition ex_shared :: SharedAllocatedByteArray where
  "ex_shared = SharedAllocatedByteArray_ctor 0 0 0 16 5"

text \<open>
  A store with a live engine at 100, a read-only engine at 200 and a file-id vector at
  300, and the snapshot with id 7 built over them.
\<close>

definition ex_world :: "ex_engine world" where
  "ex_world =
     \<lparr>w_engines = [100 \<mapsto> \<lparr>ex_pairs = [([1], [10, 0, 11]), ([2], [20])], ex_snapshots = [7]\<rparr>,
                    200 \<mapsto> \<lparr>ex_pairs = [([1], [10, 0, 11])], ex_snapshots = []\<rparr>],
      w_vectors = [300 \<mapsto> [1, 2]],
      w_calls = []\<rparr>"

definition ex_snapshot :: "unit Snapshot" where
  "ex_snapshot = Snapshot_ctor () ''db'' 100 200 300 7"


section \<open>The store after a snapshot's first close\<close>

text \<open>
  The store that the first run of \<^verbatim>\<open>Close\<close> on an open snapshot \<open>s\<close> leaves, \<open>l\<close> being the
  live engine's state before: the vector gone, the live engine told to release the id, the
  read-only engine gone, and these three calls recorded in this order.
\<close>

definition closed_world :: "('e \<Rightarrow> 32 word \<Rightarrow> 'e) \<Rightarrow> 'o Snapshot \<Rightarrow> 'e \<Rightarrow> 'e world \<Rightarrow> 'e world" where
  "closed_world RS s l w =
     \<lparr>w_engines = ((w_engines w)(m_se_live s \<mapsto> RS l (m_snapshot_id s)))(m_se_readonly s := None),
      w_vectors = (w_vectors w)(m_fileids_iterator s := None),
      w_calls = w_calls w @ [Delete_fileids_iterator (m_fileids_iterator s),
                             ReleaseSnapshot_call (m_se_live s) (m_snapshot_id s),
                             Delete_se_readonly (m_se_readonly s)]\<rparr>"


section \<open>Helper lemmas on memory\<close>

lemma length_read_bytes: "length (read_bytes m p n) = n"
  by (simp add: read_bytes_def)

lemma read_bytes_Suc: "read_bytes m p (Suc n) = m p # read_bytes m (Suc p) n"
proof -
  have "[p ..< p + Suc n] = p # [Suc p ..< Suc p + n]"
    by (simp add: upt_rec)
  then show ?thesis by (simp add: read_bytes_def)
qed

lemma read_bytes_cong:
  "(\<And>a. p \<le> a \<Longrightarrow> a < p + n \<Longrightarrow> m a = m' a) \<Longrightarrow> read_bytes m p n = read_bytes m' p n"
  by (simp add: read_bytes_def)

lemma memcmp_zero_iff: "memcmp m p q n = 0 \<longleftrightarrow> read_bytes m p n = read_bytes m q n"
proof (induction n arbitrary: p q)
  case 0
  show ?case by (simp add: read_bytes_def)
next
  case (Suc n)
  show ?case
  proof (cases "m p = m q")
    case True
    then show ?thesis using Suc.IH [of "Suc p" "Suc q"] by (simp add: read_bytes_Suc)
  next
    case False
    then have "uint (m p) \<noteq> uint (m q)" by (simp add: word_uint_eq_iff)
    with False show ?thesis by (simp add: read_bytes_Suc)
  qed
qed

lemma read_bytes_sub:
  assumes "k + n \<le> L"
  shows "take n (drop k (read_bytes m p L)) = read_bytes m (p + k) n"
proof -
  have "take n (drop k [p ..< p + L]) = [p + k ..< p + k + n]"
    using assms by (simp add: drop_upt take_upt)
  then show ?thesis
    by (simp add: read_bytes_def take_map drop_map)
qed


section \<open>What \<^verbatim>\<open>strncpy\<close> writes\<close>

lemma zero_fill_outside: "a < d \<or> d + n \<le> a \<Longrightarrow> zero_fill m d n a = m a"
  by (induction n arbitrary: m d) auto

lemma zero_fill_inside: "d \<le> a \<Longrightarrow> a < d + n \<Longrightarrow> zero_fill m d n a = 0"
proof (induction n arbitrary: m d)
  case 0
  then show ?case by simp
next
  case (Suc n)
  show ?case
  proof (cases "a = d")
    case True
    then show ?thesis by (simp add: zero_fill_outside)
  next
    case False
    with Suc.prems have "Suc d \<le> a" "a < Suc d + n" by simp_all
    then have "zero_fill (m(d := 0)) (Suc d) n a = 0" by (rule Suc.IH)
    then show ?thesis by simp
  qed
qed

lemma strncpy_outside: "a < d \<or> d + n \<le> a \<Longrightarrow> strncpy m d s n a = m a"
  by (induction n arbitrary: m d s) (auto simp: zero_fill_outside)

text \<open>A source that starts with NUL gives \<open>n\<close> NUL bytes, whatever follows it.\<close>

lemma strncpy_NUL:
  assumes "m s = 0" and "0 < n"
  shows "read_bytes (strncpy m d s n) d n = replicate n 0"
proof -
  obtain k where n: "n = Suc k" using assms(2) by (cases n) auto
  have "\<And>a. d \<le> a \<Longrightarrow> a < d + n \<Longrightarrow> zero_fill m d n a = 0"
    by (rule zero_fill_inside)
  then have "read_bytes (zero_fill m d n) d n = map (\<lambda>a. 0) [d ..< d + n]"
    by (simp add: read_bytes_def)
  also have "\<dots> = replicate n 0"
    by (simp add: map_replicate_const)
  finally show ?thesis using assms(1) n by simp
qed

text \<open>A source of \<open>n\<close> bytes without NUL, apart from the destination, is copied whole.\<close>

lemma strncpy_NUL_free:
  assumes "\<forall>a. s \<le> a \<and> a < s + n \<longrightarrow> m a \<noteq> 0"
    and "d + n \<le> s \<or> s + n \<le> d"
  shows "read_bytes (strncpy m d s n) d n = read_bytes m s n"
  using assms
proof (induction n arbitrary: m d s)
  case 0
  show ?case by (simp add: read_bytes_def)
next
  case (Suc n)
  let ?m = "m(d := m s)"
  have nz: "m s \<noteq> 0" using Suc.prems(1) by simp
  have src: "\<forall>a. Suc s \<le> a \<and> a < Suc s + n \<longrightarrow> ?m a \<noteq> 0"
    using Suc.prems by auto
  have dis: "Suc d + n \<le> Suc s \<or> Suc s + n \<le> Suc d" using Suc.prems(2) by auto
  have rest: "read_bytes (strncpy ?m (Suc d) (Suc s) n) (Suc d) n = read_bytes ?m (Suc s) n"
    by (rule Suc.IH [OF src dis])
  have same: "read_bytes ?m (Suc s) n = read_bytes m (Suc s) n"
    using Suc.prems(2) by (intro read_bytes_cong) auto
  have head: "strncpy ?m (Suc d) (Suc s) n d = m s"
    by (simp add: strncpy_outside)
  show ?case
    using nz rest same head by (simp add: read_bytes_Suc)
qed

lemma AllocatedByteArray_ctor_NUL_free:
  assumes "\<forall>a. data_in \<le> a \<and> a < data_in + unat size_in \<longrightarrow> mem a \<noteq> 0"
    and "p + unat size_in \<le> data_in \<or> data_in + unat size_in \<le> p"
  shows "case AllocatedByteArray_ctor sc crc p mem data_in size_in of
           (mem', b) \<Rightarrow> size_const b = size_in
                        \<and> ToString mem' b = read_bytes mem data_in (unat size_in)"
  using strncpy_NUL_free [OF assms]
  by (simp add: AllocatedByteArray_ctor_def ByteArray_ctor_def Let_def size_const_def ToString_def)


section \<open>Helper lemmas on \<^verbatim>\<open>data_chunk\<close>\<close>

lemma data_chunk_OK:
  assumes "m_size_compressed v \<noteq> 0"
    and "IsOK (u_status (U (m_compressor v) mem (m_data v) (m_size_compressed v)))"
  shows "data_chunk U g st mem v =
     (let u = U (m_compressor v) mem (m_data v) (m_size_compressed v)
      in \<lparr>c_status = Status_OK, c_data_out = u_dest u, c_size_out = u_size_dest u,
          c_view = v\<lparr>m_compressor := u_compressor u, m_crc32 := st (m_crc32 v) (frame_bytes u)\<rparr>,
          c_memory = u_memory u\<rparr>)"
  using assms by (simp add: data_chunk_def Let_def IsOK_def IsDone_def frame_bytes_def)

lemma data_chunk_Done:
  assumes "m_size_compressed v \<noteq> 0"
    and "IsDone (u_status (U (m_compressor v) mem (m_data v) (m_size_compressed v)))"
  shows "c_status (data_chunk U g st mem v) =
           (if g (m_crc32 v) = m_crc32_value v
            then u_status (U (m_compressor v) mem (m_data v) (m_size_compressed v))
            else Status_IOError ''Bad CRC32'')"
    and "m_crc32 (c_view (data_chunk U g st mem v)) = m_crc32 v"
  using assms by (simp_all add: data_chunk_def Let_def IsOK_def IsDone_def)

lemma stream_all_Cons: "stream_all st h (b # bs) = stream_all st (st h b) bs"
  by (simp add: stream_all_def)

text \<open>
  While the compressor answers OK, each call hands out what the compressor decoded and
  streams the frame it reported; the call on which the compressor answers Done compares.
\<close>

lemma data_chunk_calls_frames:
  assumes "m_size_compressed v \<noteq> 0"
    and "\<forall>i<k. IsOK (u_status (Uncompress_calls U (Suc k) (m_compressor v) mem (m_data v) (m_size_compressed v) ! i))"
    and "IsDone (u_status (Uncompress_calls U (Suc k) (m_compressor v) mem (m_data v) (m_size_compressed v) ! k))"
  shows "(\<forall>i<k. c_status (data_chunk_calls U g st (Suc k) mem v ! i) = Status_OK
             \<and> c_data_out (data_chunk_calls U g st (Suc k) mem v ! i)
                 = u_dest (Uncompress_calls U (Suc k) (m_compressor v) mem (m_data v) (m_size_compressed v) ! i)
             \<and> c_size_out (data_chunk_calls U g st (Suc k) mem v ! i)
                 = u_size_dest (Uncompress_calls U (Suc k) (m_compressor v) mem (m_data v) (m_size_compressed v) ! i))
       \<and> m_crc32 (c_view (data_chunk_calls U g st (Suc k) mem v ! k))
           = stream_all st (m_crc32 v)
               (map frame_bytes (take k (Uncompress_calls U (Suc k) (m_compressor v) mem (m_data v) (m_size_compressed v))))
       \<and> c_status (data_chunk_calls U g st (Suc k) mem v ! k)
           = (if g (stream_all st (m_crc32 v)
                     (map frame_bytes (take k (Uncompress_calls U (Suc k) (m_compressor v) mem (m_data v) (m_size_compressed v)))))
                 = m_crc32_value v
              then u_status (Uncompress_calls U (Suc k) (m_compressor v) mem (m_data v) (m_size_compressed v) ! k)
              else Status_IOError ''Bad CRC32'')"
  using assms
proof (induction k arbitrary: v mem)
  case 0
  then have d: "IsDone (u_status (U (m_compressor v) mem (m_data v) (m_size_compressed v)))"
    by (simp add: Let_def)
  show ?case
    using data_chunk_Done [where U = U and v = v and mem = mem and g = g and st = st]
      "0.prems"(1) d
    by (simp add: Let_def stream_all_def)
next
  case (Suc k)
  define u0 where "u0 = U (m_compressor v) mem (m_data v) (m_size_compressed v)"
  define v1 where "v1 = v\<lparr>m_compressor := u_compressor u0, m_crc32 := st (m_crc32 v) (frame_bytes u0)\<rparr>"
  define us1 where "us1 = Uncompress_calls U (Suc k) (m_compressor v1) (u_memory u0) (m_data v1) (m_size_compressed v1)"
  define rs1 where "rs1 = data_chunk_calls U g st (Suc k) (u_memory u0) v1"
  have us: "Uncompress_calls U (Suc (Suc k)) (m_compressor v) mem (m_data v) (m_size_compressed v) = u0 # us1"
    by (simp add: u0_def us1_def v1_def Let_def)
  have p2: "\<forall>i<Suc k. IsOK (u_status ((u0 # us1) ! i))"
    using Suc.prems(2) unfolding us .
  have p3: "IsDone (u_status ((u0 # us1) ! Suc k))"
    using Suc.prems(3) unfolding us .
  have ok0: "IsOK (u_status u0)"
    using p2 [rule_format, of 0] by simp
  have r0: "data_chunk U g st mem v =
      \<lparr>c_status = Status_OK, c_data_out = u_dest u0, c_size_out = u_size_dest u0,
       c_view = v1, c_memory = u_memory u0\<rparr>"
    using data_chunk_OK [where U = U and v = v and mem = mem and g = g and st = st]
      Suc.prems(1) ok0
    by (simp add: u0_def v1_def Let_def)
  have rs: "data_chunk_calls U g st (Suc (Suc k)) mem v = data_chunk U g st mem v # rs1"
    by (simp add: rs1_def r0 Let_def)
  have sc1: "m_size_compressed v1 \<noteq> 0"
    using Suc.prems(1) by (simp add: v1_def)
  have ok1: "\<forall>i<k. IsOK (u_status (us1 ! i))"
  proof (intro allI impI)
    fix i assume "i < k"
    then have "IsOK (u_status ((u0 # us1) ! Suc i))"
      using p2 [rule_format, of "Suc i"] by simp
    then show "IsOK (u_status (us1 ! i))" by simp
  qed
  have dn1: "IsDone (u_status (us1 ! k))"
    using p3 by simp
  note IH = Suc.IH [of v1 "u_memory u0", OF sc1 ok1 [unfolded us1_def] dn1 [unfolded us1_def],
      folded us1_def rs1_def]
  have st: "stream_all st (m_crc32 v) (frame_bytes u0 # map frame_bytes (take k us1))
      = stream_all st (m_crc32 v1) (map frame_bytes (take k us1))"
    by (simp add: stream_all_Cons v1_def)
  have v1f: "m_crc32_value v1 = m_crc32_value v"
    by (simp add: v1_def)
  have part1: "\<forall>i<Suc k. c_status ((data_chunk U g st mem v # rs1) ! i) = Status_OK
             \<and> c_data_out ((data_chunk U g st mem v # rs1) ! i) = u_dest ((u0 # us1) ! i)
             \<and> c_size_out ((data_chunk U g st mem v # rs1) ! i) = u_size_dest ((u0 # us1) ! i)"
  proof (intro allI impI)
    fix i assume i: "i < Suc k"
    show "c_status ((data_chunk U g st mem v # rs1) ! i) = Status_OK
             \<and> c_data_out ((data_chunk U g st mem v # rs1) ! i) = u_dest ((u0 # us1) ! i)
             \<and> c_size_out ((data_chunk U g st mem v # rs1) ! i) = u_size_dest ((u0 # us1) ! i)"
    proof (cases i)
      case 0
      then show ?thesis by (simp add: r0)
    next
      case (Suc j)
      with i have "j < k" by simp
      with IH Suc show ?thesis by simp
    qed
  qed
  show ?case
    unfolding us rs
    using part1 IH st v1f by simp
qed


section \<open>Helper lemmas on the snapshot's life cycle\<close>

lemma Close_closed: "m_is_closed s \<Longrightarrow> Close RS (s, w) = Inr (s, w)"
  by (simp add: Close_def)

lemma lifecycle_step_closed: "m_is_closed s \<Longrightarrow> lifecycle_step RS c (s, w) = Inr (s, w)"
  by (cases c) (simp_all add: Snapshot_dtor_def Close_closed)

lemma lifecycle_run_closed: "m_is_closed s \<Longrightarrow> lifecycle_run RS cs (s, w) = Inr (s, w)"
  by (induction cs) (simp_all add: lifecycle_step_closed)

lemma Close_open:
  assumes "\<not> m_is_closed s"
    and "w_vectors w (m_fileids_iterator s) = Some ids"
    and "w_engines w (m_se_live s) = Some l"
    and "w_engines w (m_se_readonly s) = Some r"
    and "m_fileids_iterator s \<noteq> nullptr" and "m_se_readonly s \<noteq> nullptr"
  shows "Close RS (s, w) = Inr (s\<lparr>m_is_closed := True\<rparr>, closed_world RS s l w)"
  using assms
  by (simp add: Close_def delete_vector_def call_ReleaseSnapshot_def delete_engine_def
      closed_world_def Let_def)

text \<open>A closed snapshot reads through a pointer to a deleted engine.\<close>

lemma Get_after_Close:
  assumes "w_engines w (m_se_readonly s) = None"
  shows "Get EG read_options key value_out s w = Inl InvalidPointer"
  using assms by (simp add: Get_def)


section \<open>Writes on a snapshot\<close>

text \<open>
  C1, with the status that the code returns. For every snapshot, open or closed, and every key, chunk and write options,
  \<^verbatim>\<open>Put\<close>, \<^verbatim>\<open>PutChunk\<close> and \<^verbatim>\<open>Remove\<close> each return the I/O-error status with the message
  "Not supported", and the snapshot's fields, the live engine and the read-only engine are
  after the call what they were before it.
\<close>

theorem Snapshot_writes_rejected:
  "Put wo key chunk sw = (Status_IOError ''Not supported'', sw)
   \<and> PutChunk wo key chunk offset_chunk size_value sw = (Status_IOError ''Not supported'', sw)
   \<and> Remove wo key sw = (Status_IOError ''Not supported'', sw)
   \<and> IsIOError (Status_IOError ''Not supported'')"
  by (simp add: Put_def PutChunk_def Remove_def IsIOError_def Status_IOError_def)

text \<open>
  C1 as stated asks for a status of the kind UnsupportedOperation. On the example snapshot
  none of the three operations returns that kind.
\<close>

theorem Snapshot_writes_not_UnsupportedOperation:
  "code (fst (Put () [1 :: byte] [2 :: byte] (ex_snapshot, ex_world))) \<noteq> kUnsupportedOperation
   \<and> code (fst (PutChunk () [1 :: byte] [2 :: byte] 0 1 (ex_snapshot, ex_world))) \<noteq> kUnsupportedOperation
   \<and> code (fst (Remove () [1 :: byte] (ex_snapshot, ex_world))) \<noteq> kUnsupportedOperation"
  by (simp add: Put_def PutChunk_def Remove_def Status_IOError_def)


section \<open>The status of a checksum mismatch\<close>

text \<open>
  C2, with the status that the code returns. On a view of a compressed value, when the compressor reports Done and the
  accumulated checksum differs from the stored one, \<^verbatim>\<open>data_chunk\<close> returns the I/O-error
  status with the message "Bad CRC32": a status of the same kind as a generic I/O error,
  told apart from it by its message only. A failure status of the compressor (neither OK
  nor Done) is returned as the compressor gave it.
\<close>

theorem data_chunk_bad_checksum_is_IOError:
  assumes "m_size_compressed v \<noteq> 0"
    and "u = U (m_compressor v) mem (m_data v) (m_size_compressed v)"
    and "r = data_chunk U crc_get crc_stream mem v"
  shows "(IsDone (u_status u) \<and> crc_get (m_crc32 v) \<noteq> m_crc32_value v \<longrightarrow>
            c_status r = Status_IOError ''Bad CRC32'' \<and> code (c_status r) = kIOError)
       \<and> (\<not> IsDone (u_status u) \<and> \<not> IsOK (u_status u) \<longrightarrow> c_status r = u_status u)"
  using assms by (simp add: data_chunk_def Let_def Status_IOError_def)

text \<open>
  C2 in this form on the examples: the example view after both frames were read, with a stored
  checksum of 0, gets "Bad CRC32"; the view over the memory with a zero length byte gets
  the codec's own failure status.
\<close>

theorem data_chunk_bad_checksum_is_IOError_witness:
  "m_size_compressed (ex_view 5 0) \<noteq> 0
   \<and> IsDone (u_status (ex_Uncompress \<lparr>ex_offset = 5, ex_free = 67\<rparr> ex_memory 16 5))
   \<and> ex_crc_get 4831077 \<noteq> 0
   \<and> c_status (data_chunk ex_Uncompress ex_crc_get ex_crc_stream ex_memory
        ((ex_view 5 0)\<lparr>m_compressor := \<lparr>ex_offset = 5, ex_free = 67\<rparr>, m_crc32 := 4831077\<rparr>))
       = Status_IOError ''Bad CRC32''
   \<and> \<not> IsDone (u_status (ex_Uncompress \<lparr>ex_offset = 0, ex_free = 64\<rparr> ex_memory_bad 16 5))
   \<and> \<not> IsOK (u_status (ex_Uncompress \<lparr>ex_offset = 0, ex_free = 64\<rparr> ex_memory_bad 16 5))
   \<and> c_status (data_chunk ex_Uncompress ex_crc_get ex_crc_stream ex_memory_bad (ex_view 5 0))
       = Status_IOError ''decode failed''"
proof -
  define v1 where "v1 = (ex_view 5 0)\<lparr>m_compressor := \<lparr>ex_offset = 5, ex_free = 67\<rparr>, m_crc32 := 4831077\<rparr>"
  have a1: "m_size_compressed v1 \<noteq> 0" by (simp add: v1_def ex_view_def)
  have a2: "m_size_compressed (ex_view 5 0) \<noteq> 0" by (simp add: ex_view_def)
  have f1: "m_compressor v1 = \<lparr>ex_offset = 5, ex_free = 67\<rparr>" "m_data v1 = 16"
    "m_size_compressed v1 = 5" "m_crc32 v1 = 4831077" "m_crc32_value v1 = 0"
    by (simp_all add: v1_def ex_view_def)
  have f2: "m_compressor (ex_view 5 0) = \<lparr>ex_offset = 0, ex_free = 64\<rparr>" "m_data (ex_view 5 0) = 16"
    "m_size_compressed (ex_view 5 0) = 5"
    by (simp_all add: ex_view_def)
  have d: "IsDone (u_status (ex_Uncompress \<lparr>ex_offset = 5, ex_free = 67\<rparr> ex_memory 16 5))"
    by code_simp
  have g: "ex_crc_get 4831077 \<noteq> 0" by (simp add: ex_crc_get_def)
  have n1: "\<not> IsDone (u_status (ex_Uncompress \<lparr>ex_offset = 0, ex_free = 64\<rparr> ex_memory_bad 16 5))"
    by code_simp
  have n2: "\<not> IsOK (u_status (ex_Uncompress \<lparr>ex_offset = 0, ex_free = 64\<rparr> ex_memory_bad 16 5))"
    by code_simp
  have n3: "u_status (ex_Uncompress \<lparr>ex_offset = 0, ex_free = 64\<rparr> ex_memory_bad 16 5)
     = Status_IOError ''decode failed''"
    by code_simp
  have c1: "c_status (data_chunk ex_Uncompress ex_crc_get ex_crc_stream ex_memory v1)
       = Status_IOError ''Bad CRC32''"
    using data_chunk_bad_checksum_is_IOError [OF a1 refl refl, of ex_Uncompress ex_memory ex_crc_get ex_crc_stream]
      d g by (simp add: f1)
  have c2: "c_status (data_chunk ex_Uncompress ex_crc_get ex_crc_stream ex_memory_bad (ex_view 5 0))
       = Status_IOError ''decode failed''"
    using data_chunk_bad_checksum_is_IOError [OF a2 refl refl, of ex_Uncompress ex_memory_bad ex_crc_get ex_crc_stream]
      n1 n2 n3 by (simp add: f2)
  from a2 d g c1 n1 n2 c2 show ?thesis
    unfolding v1_def by blast
qed

text \<open>
  C2 as stated asks for a status of the kind ChecksumError, distinct from the kind of a
  codec failure. The third call on the example view with stored checksum 0 reports the
  mismatch: its status is not of the kind ChecksumError, and it has the kind of the status
  that the codec's failure on a zero length byte produces.
\<close>

theorem data_chunk_bad_checksum_not_ChecksumError:
  "code (c_status (data_chunk_calls ex_Uncompress ex_crc_get ex_crc_stream 3 ex_memory (ex_view 5 0) ! 2))
     \<noteq> kChecksumError
   \<and> code (c_status (data_chunk_calls ex_Uncompress ex_crc_get ex_crc_stream 3 ex_memory (ex_view 5 0) ! 2))
     = code (c_status (data_chunk ex_Uncompress ex_crc_get ex_crc_stream ex_memory_bad (ex_view 5 0)))"
  by code_simp


section \<open>The checksum of a compressed value\<close>

text \<open>
  C3, with the bytes that the code checksums. On a view of a value compressed into \<open>k\<close> frames (the compressor answers OK
  on its first \<open>k\<close> calls and Done on the next), the first \<open>k\<close> calls of \<^verbatim>\<open>data_chunk\<close>
  return OK and hand out, in order, what the compressor decoded; each of them streams into
  the checksum the frame bytes that the compressor reported for that call (its \<^verbatim>\<open>frame\<close>
  and \<^verbatim>\<open>size_frame\<close> outputs, not its decoded bytes), so that on call \<open>k + 1\<close> the checksum
  covers all \<open>k\<close> frames; that call returns Done exactly when this checksum equals the
  stored value, and the I/O-error status "Bad CRC32" otherwise.
\<close>

theorem data_chunk_checksum_over_frames:
  assumes "m_size_compressed v \<noteq> 0"
    and "us = Uncompress_calls U (Suc k) (m_compressor v) mem (m_data v) (m_size_compressed v)"
    and "rs = data_chunk_calls U g st (Suc k) mem v"
    and "\<forall>i<k. IsOK (u_status (us ! i))"
    and "IsDone (u_status (us ! k))"
  shows "(\<forall>i<k. c_status (rs ! i) = Status_OK \<and> c_data_out (rs ! i) = u_dest (us ! i)
                \<and> c_size_out (rs ! i) = u_size_dest (us ! i))
    \<and> m_crc32 (c_view (rs ! k)) = stream_all st (m_crc32 v) (map frame_bytes (take k us))
    \<and> (IsDone (c_status (rs ! k)) \<longleftrightarrow>
         g (stream_all st (m_crc32 v) (map frame_bytes (take k us))) = m_crc32_value v)
    \<and> (\<not> IsDone (c_status (rs ! k)) \<longrightarrow> c_status (rs ! k) = Status_IOError ''Bad CRC32'')"
proof -
  note run = data_chunk_calls_frames [where U = U and v = v and mem = mem and g = g and st = st
      and k = k, folded assms(2) assms(3), OF assms(1) assms(4) assms(5)]
  have "\<not> IsDone (Status_IOError ''Bad CRC32'')"
    by (simp add: IsDone_def Status_IOError_def)
  with run assms(5) show ?thesis
    by (simp split: if_splits)
qed

text \<open>
  C3 in this form on the example view of two frames, whose stored checksum 4831077 is the
  checksum of the frame bytes \<open>[2, 97, 98]\<close> and \<open>[1, 99]\<close>: the third call returns Done.
\<close>

theorem data_chunk_checksum_over_frames_witness:
  "m_size_compressed (ex_view 5 4831077) \<noteq> 0
   \<and> IsOK (u_status (Uncompress_calls ex_Uncompress 3 \<lparr>ex_offset = 0, ex_free = 64\<rparr> ex_memory 16 5 ! 0))
   \<and> IsOK (u_status (Uncompress_calls ex_Uncompress 3 \<lparr>ex_offset = 0, ex_free = 64\<rparr> ex_memory 16 5 ! 1))
   \<and> IsDone (u_status (Uncompress_calls ex_Uncompress 3 \<lparr>ex_offset = 0, ex_free = 64\<rparr> ex_memory 16 5 ! 2))
   \<and> map frame_bytes (take 2 (Uncompress_calls ex_Uncompress 3 \<lparr>ex_offset = 0, ex_free = 64\<rparr> ex_memory 16 5))
       = [[2, 97, 98], [1, 99]]
   \<and> IsDone (c_status (data_chunk_calls ex_Uncompress ex_crc_get ex_crc_stream 3 ex_memory (ex_view 5 4831077) ! 2))
   \<and> ex_crc_get (stream_all ex_crc_stream 0 [[2, 97, 98], [1, 99]]) = 4831077"
proof -
  define us where "us = Uncompress_calls ex_Uncompress 3 \<lparr>ex_offset = 0, ex_free = 64\<rparr> ex_memory 16 5"
  have us0: "IsOK (u_status (us ! 0))" unfolding us_def by code_simp
  have us1: "IsOK (u_status (us ! 1))" unfolding us_def by code_simp
  have h1: "m_size_compressed (ex_view 5 4831077) \<noteq> 0" by (simp add: ex_view_def)
  have h2: "us = Uncompress_calls ex_Uncompress (Suc 2) (m_compressor (ex_view 5 4831077)) ex_memory
               (m_data (ex_view 5 4831077)) (m_size_compressed (ex_view 5 4831077))"
    by (simp add: us_def ex_view_def numeral_3_eq_3 numeral_2_eq_2)
  have h3: "data_chunk_calls ex_Uncompress ex_crc_get ex_crc_stream 3 ex_memory (ex_view 5 4831077)
      = data_chunk_calls ex_Uncompress ex_crc_get ex_crc_stream (Suc 2) ex_memory (ex_view 5 4831077)"
    by (simp add: numeral_3_eq_3 numeral_2_eq_2)
  have h4: "\<forall>i<2. IsOK (u_status (us ! i))"
  proof (intro allI impI)
    fix i :: nat assume "i < 2"
    then have "i = 0 \<or> i = 1" by auto
    with us0 us1 show "IsOK (u_status (us ! i))" by auto
  qed
  have h5: "IsDone (u_status (us ! 2))" unfolding us_def by code_simp
  have fr: "map frame_bytes (take 2 us) = [[2, 97, 98], [1, 99]]" unfolding us_def by code_simp
  have crc: "ex_crc_get (stream_all ex_crc_stream 0 [[2, 97, 98], [1, 99]]) = 4831077" by code_simp
  have m0: "m_crc32 (ex_view 5 4831077) = 0" "m_crc32_value (ex_view 5 4831077) = 4831077"
    by (simp_all add: ex_view_def)
  from data_chunk_checksum_over_frames [OF h1 h2 h3 h4 h5]
  have "IsDone (c_status (data_chunk_calls ex_Uncompress ex_crc_get ex_crc_stream 3 ex_memory (ex_view 5 4831077) ! 2))"
    by (simp only: fr m0 crc)
  with h1 us0 us1 h5 fr crc show ?thesis
    unfolding us_def by blast
qed

text \<open>
  C3 as stated has the checksum run over the decoded bytes. On the example view the decoded
  stream is \<open>[97, 98]\<close> then \<open>[99]\<close>, with checksum 96354. With 4831077 stored, the third
  call returns Done although the checksum of the decoded stream differs from the stored
  value; with 96354 stored, it does not return Done although the two are equal.
\<close>

theorem data_chunk_checksum_not_over_decoded:
  "IsDone (c_status (data_chunk_calls ex_Uncompress ex_crc_get ex_crc_stream 3 ex_memory (ex_view 5 4831077) ! 2))
   \<and> ex_crc_get (stream_all ex_crc_stream 0
        (map decoded_bytes (take 2 (Uncompress_calls ex_Uncompress 3 \<lparr>ex_offset = 0, ex_free = 64\<rparr> ex_memory 16 5))))
       \<noteq> m_crc32_value (ex_view 5 4831077)
   \<and> \<not> IsDone (c_status (data_chunk_calls ex_Uncompress ex_crc_get ex_crc_stream 3 ex_memory (ex_view 5 96354) ! 2))
   \<and> ex_crc_get (stream_all ex_crc_stream 0
        (map decoded_bytes (take 2 (Uncompress_calls ex_Uncompress 3 \<lparr>ex_offset = 0, ex_free = 64\<rparr> ex_memory 16 5))))
       = m_crc32_value (ex_view 5 96354)"
  by code_simp


section \<open>Closing a snapshot\<close>

text \<open>
  C4. From an open snapshot whose three pointers point to objects, any run of \<^verbatim>\<open>Close()\<close>
  calls and destructor runs, in any order and of any length from one on, ends without
  fault in the same state: the snapshot closed, the file-id vector deleted once, the live
  engine asked once to release the snapshot's id, the read-only engine deleted once, these
  three calls and no other recorded. Every \<^verbatim>\<open>Close()\<close> and every destructor run on a closed
  snapshot leaves the snapshot and the store as they are.
\<close>

theorem Close_exactly_once:
  assumes "\<not> m_is_closed s"
    and "w_vectors w (m_fileids_iterator s) = Some ids"
    and "w_engines w (m_se_live s) = Some l"
    and "w_engines w (m_se_readonly s) = Some r"
    and "m_fileids_iterator s \<noteq> nullptr" and "m_se_readonly s \<noteq> nullptr"
  shows "lifecycle_run RS (c # cs) (s, w) = Inr (s\<lparr>m_is_closed := True\<rparr>, closed_world RS s l w)
    \<and> w_calls (closed_world RS s l w) =
        w_calls w @ [Delete_fileids_iterator (m_fileids_iterator s),
                     ReleaseSnapshot_call (m_se_live s) (m_snapshot_id s),
                     Delete_se_readonly (m_se_readonly s)]
    \<and> (m_is_closed s' \<longrightarrow> Close RS (s', w') = Inr (s', w') \<and> Snapshot_dtor RS (s', w') = Inr (s', w'))"
proof -
  have first: "lifecycle_step RS c (s, w) = Inr (s\<lparr>m_is_closed := True\<rparr>, closed_world RS s l w)"
    using Close_open [OF assms] by (cases c) (simp_all add: Snapshot_dtor_def)
  have "lifecycle_run RS (c # cs) (s, w) = lifecycle_run RS cs (s\<lparr>m_is_closed := True\<rparr>, closed_world RS s l w)"
    by (simp add: first)
  also have "\<dots> = Inr (s\<lparr>m_is_closed := True\<rparr>, closed_world RS s l w)"
    by (rule lifecycle_run_closed) simp
  finally show ?thesis
    by (simp add: closed_world_def Close_closed Snapshot_dtor_def)
qed

text \<open>
  C4 on the example snapshot: two \<^verbatim>\<open>Close()\<close> calls and then the destructor make the three
  calls once each, and a further destructor run changes nothing.
\<close>

theorem Close_exactly_once_witness:
  "\<not> m_is_closed ex_snapshot
   \<and> w_vectors ex_world (m_fileids_iterator ex_snapshot) = Some [1, 2]
   \<and> w_engines ex_world (m_se_readonly ex_snapshot) = Some \<lparr>ex_pairs = [([1], [10, 0, 11])], ex_snapshots = []\<rparr>
   \<and> (\<exists>sw. lifecycle_run ex_ReleaseSnapshot [Close_call, Close_call, Destructor] (ex_snapshot, ex_world) = Inr sw
         \<and> m_is_closed (fst sw)
         \<and> w_calls (snd sw) = [Delete_fileids_iterator 300, ReleaseSnapshot_call 100 7, Delete_se_readonly 200]
         \<and> w_engines (snd sw) 200 = None
         \<and> w_vectors (snd sw) 300 = None
         \<and> w_engines (snd sw) 100 = Some \<lparr>ex_pairs = [([1], [10, 0, 11]), ([2], [20])], ex_snapshots = []\<rparr>
         \<and> Snapshot_dtor ex_ReleaseSnapshot sw = Inr sw)"
proof -
  have h1: "\<not> m_is_closed ex_snapshot" by (simp add: ex_snapshot_def Snapshot_ctor_def)
  have h2: "w_vectors ex_world (m_fileids_iterator ex_snapshot) = Some [1, 2]"
    by (simp add: ex_snapshot_def Snapshot_ctor_def ex_world_def)
  have h3: "w_engines ex_world (m_se_live ex_snapshot)
      = Some \<lparr>ex_pairs = [([1], [10, 0, 11]), ([2], [20])], ex_snapshots = [7]\<rparr>"
    by (simp add: ex_snapshot_def Snapshot_ctor_def ex_world_def)
  have h4: "w_engines ex_world (m_se_readonly ex_snapshot)
      = Some \<lparr>ex_pairs = [([1], [10, 0, 11])], ex_snapshots = []\<rparr>"
    by (simp add: ex_snapshot_def Snapshot_ctor_def ex_world_def)
  have h5: "m_fileids_iterator ex_snapshot \<noteq> nullptr" "m_se_readonly ex_snapshot \<noteq> nullptr"
    by (simp_all add: ex_snapshot_def Snapshot_ctor_def nullptr_def)
  define sw where "sw = (ex_snapshot\<lparr>m_is_closed := True\<rparr>,
     closed_world ex_ReleaseSnapshot ex_snapshot
       \<lparr>ex_pairs = [([1], [10, 0, 11]), ([2], [20])], ex_snapshots = [7]\<rparr> ex_world)"
  note inst = Close_exactly_once [OF h1 h2 h3 h4 h5, of ex_ReleaseSnapshot Close_call
      "[Close_call, Destructor]" "fst sw" "snd sw"]
  have run: "lifecycle_run ex_ReleaseSnapshot [Close_call, Close_call, Destructor] (ex_snapshot, ex_world) = Inr sw"
    using inst by (simp add: sw_def)
  have cl: "m_is_closed (fst sw)" by (simp add: sw_def)
  have again: "Snapshot_dtor ex_ReleaseSnapshot sw = Inr sw"
    using inst cl by simp
  have calls: "w_calls (snd sw) = [Delete_fileids_iterator 300, ReleaseSnapshot_call 100 7, Delete_se_readonly 200]"
    using inst by (simp add: sw_def ex_snapshot_def Snapshot_ctor_def ex_world_def)
  have rest: "w_engines (snd sw) 200 = None" "w_vectors (snd sw) 300 = None"
    "w_engines (snd sw) 100 = Some \<lparr>ex_pairs = [([1], [10, 0, 11]), ([2], [20])], ex_snapshots = []\<rparr>"
    by (simp_all add: sw_def closed_world_def ex_snapshot_def Snapshot_ctor_def ex_world_def
        ex_ReleaseSnapshot_def)
  from h1 h2 h4 run cl calls rest again show ?thesis by blast
qed


section \<open>Failure to open or map\<close>

text \<open>
  Whether the constructor returns is decided by \<^verbatim>\<open>mmap\<close> alone: it ends the process when
  the mapping fails and returns the object otherwise, whatever \<^verbatim>\<open>open\<close> gave.
\<close>

lemma Mmap_ctor_outcome:
  "snd (Mmap_ctor sys_open sys_mmap filepath filesize) =
     (if sys_mmap (scast filesize) (sys_open filepath) = MAP_FAILED then Exits (- 1)
      else Returns \<lparr>m_fd = sys_open filepath, m_filesize = filesize,
                     m_datafile = sys_mmap (scast filesize) (sys_open filepath),
                     m_filepath = filepath\<rparr>)"
  by (simp add: Mmap_ctor_def Let_def)

text \<open>A failed mapping ends the process: the constructor calls \<^verbatim>\<open>exit(-1)\<close>.\<close>

lemma Mmap_ctor_mmap_failure_exits:
  assumes "sys_mmap (scast filesize) (sys_open filepath) = MAP_FAILED"
  shows "snd (Mmap_ctor sys_open sys_mmap filepath filesize) = Exits (- 1)"
  using assms by (simp add: Mmap_ctor_outcome)

text \<open>
  A failed \<^verbatim>\<open>open\<close> alone ends nothing: after its log line the constructor reports
  "open file: ok" and goes on to \<^verbatim>\<open>mmap\<close> with the failed descriptor.
\<close>

lemma Mmap_ctor_open_failure_log:
  assumes "sint (sys_open filepath) < 0"
  shows "take 2 (fst (Mmap_ctor sys_open sys_mmap filepath filesize)) =
           [(EMERG, ''ByteArrayMmap()::ctor()'', ''Count not open file ['' @ filepath @ '']''),
            (TRACE, ''StorageEngine::GetEntry()'', ''open file: ok'')]"
  using assms by (simp add: Mmap_ctor_def Let_def)



section \<open>Reading through a snapshot\<close>

text \<open>
  C6. For every key and read options, \<^verbatim>\<open>Get\<close> on a snapshot whose read-only engine exists
  returns the status that this engine's \<^verbatim>\<open>Get\<close> produced for the key, whatever it is
  (NotFound, OK or any other), together with what the engine left in \<^verbatim>\<open>*value_out\<close>. The
  snapshot's fields are unchanged, so nothing is cached; in the store only the read-only
  engine's own state may differ afterwards, and the result is the same in any store that
  holds this engine, whatever the live engine is.
\<close>

theorem Get_delegates:
  assumes "w_engines w (m_se_readonly s) = Some e"
    and "EG e key value_out = (st, value_out1, e1)"
  shows "\<exists>lg. Get EG read_options key value_out s w =
            Inr \<lparr>g_log = lg, g_status = st, g_value_out = value_out1, g_snapshot = s,
                 g_world = w\<lparr>w_engines := (w_engines w)(m_se_readonly s \<mapsto> e1)\<rparr>\<rparr>"
  using assms by (simp add: Get_def Let_def)

text \<open>
  C6 on the example snapshot: key \<open>[2]\<close> is in the live engine and not in the read-only
  one, and \<^verbatim>\<open>Get\<close> returns the read-only engine's NotFound.
\<close>

theorem Get_delegates_witness:
  "w_engines ex_world (m_se_readonly ex_snapshot) = Some \<lparr>ex_pairs = [([1], [10, 0, 11])], ex_snapshots = []\<rparr>
   \<and> ex_Get \<lparr>ex_pairs = [([1], [10, 0, 11])], ex_snapshots = []\<rparr> [2] [] =
       (Status kNotFound ''Unable to find the entry in the storage engine'', [],
        \<lparr>ex_pairs = [([1], [10, 0, 11])], ex_snapshots = []\<rparr>)
   \<and> (\<exists>lg. Get ex_Get () [2] [] ex_snapshot ex_world =
         Inr \<lparr>g_log = lg,
              g_status = Status kNotFound ''Unable to find the entry in the storage engine'',
              g_value_out = [], g_snapshot = ex_snapshot,
              g_world = ex_world\<lparr>w_engines := (w_engines ex_world)(m_se_readonly ex_snapshot \<mapsto>
                 \<lparr>ex_pairs = [([1], [10, 0, 11])], ex_snapshots = []\<rparr>)\<rparr>\<rparr>)"
proof -
  have h1: "w_engines ex_world (m_se_readonly ex_snapshot)
      = Some \<lparr>ex_pairs = [([1], [10, 0, 11])], ex_snapshots = []\<rparr>"
    by (simp add: ex_snapshot_def Snapshot_ctor_def ex_world_def)
  have h2: "ex_Get \<lparr>ex_pairs = [([1], [10, 0, 11])], ex_snapshots = []\<rparr> [2] [] =
       (Status kNotFound ''Unable to find the entry in the storage engine'', [],
        \<lparr>ex_pairs = [([1], [10, 0, 11])], ex_snapshots = []\<rparr>)"
    by (simp add: ex_Get_def)
  from Get_delegates [where EG = ex_Get and w = ex_world and s = ex_snapshot and key = "[2]"
      and value_out = "[]" and read_options = "()", OF h1 h2] h1 h2
  show ?thesis by blast
qed


section \<open>An uncompressed value\<close>

text \<open>
  C7. On a view whose stored value is uncompressed (its compressed size is 0, which is
  what \<^verbatim>\<open>data_chunk\<close> tests), one call of \<^verbatim>\<open>data_chunk\<close> returns the view's own data address
  and size and the status Done; the view and the memory are unchanged, so nothing is
  copied or allocated.
\<close>

theorem data_chunk_uncompressed:
  assumes "m_size_compressed v = 0"
  shows "data_chunk U crc_get crc_stream mem v =
           \<lparr>c_status = Status_Done, c_data_out = m_data v, c_size_out = m_size v,
            c_view = v, c_memory = mem\<rparr>
         \<and> IsDone (c_status (data_chunk U crc_get crc_stream mem v))"
  using assms by (simp add: data_chunk_def IsDone_def Status_Done_def)

text \<open>C7 on the example view with compressed size 0.\<close>

theorem data_chunk_uncompressed_witness:
  "m_size_compressed (ex_view 0 0) = 0
   \<and> data_chunk ex_Uncompress ex_crc_get ex_crc_stream ex_memory (ex_view 0 0) =
       \<lparr>c_status = Status_Done, c_data_out = 16, c_size_out = 3, c_view = ex_view 0 0,
        c_memory = ex_memory\<rparr>"
proof -
  have h: "m_size_compressed (ex_view 0 0) = 0" by (simp add: ex_view_def)
  have f: "m_data (ex_view 0 0) = 16" "m_size (ex_view 0 0) = 3" by (simp_all add: ex_view_def)
  from data_chunk_uncompressed [OF h, of ex_Uncompress ex_crc_get ex_crc_stream ex_memory] h
  show ?thesis by (simp only: f)
qed


section \<open>Copying the caller's bytes\<close>

text \<open>
  C8. The claim is that a copy of any span of \<open>n\<close> bytes, NUL bytes included, has size \<open>n\<close>
  and the same \<open>n\<close> bytes. The constructor copies with \<^verbatim>\<open>strncpy\<close>: for the span
  \<open>[97, 0, 98]\<close> at address 16, copied to a block at 32 that held \<open>[255, 255, 255]\<close>, the
  copy has size 3 and holds \<open>[97, 0, 0]\<close>; the byte after the NUL is lost.
\<close>

theorem AllocatedByteArray_ctor_stops_at_NUL:
  "read_bytes (write_bytes (write_bytes zero_memory 16 [97, 0, 98]) 32 [255, 255, 255]) 16 3 = [97, 0, 98]
   \<and> (case AllocatedByteArray_ctor 0 0 32
             (write_bytes (write_bytes zero_memory 16 [97, 0, 98]) 32 [255, 255, 255]) 16 3 of
         (mem, b) \<Rightarrow> size_const b = 3 \<and> ToString mem b = [97, 0, 0])"
  by code_simp


section \<open>Views at an offset\<close>

text \<open>
  C9. For a shared view over a buffer of \<open>L\<close> bytes (a mapped view that holds a mapping, or
  a shared heap view) and every offset \<open>k\<close> and size \<open>n\<close> with \<open>k + n \<le> L\<close>,
  \<^verbatim>\<open>SetOffset(k, n)\<close> gives a view of size \<open>n\<close> whose bytes are the buffer's bytes from \<open>k\<close>
  up to \<open>k + n\<close>, the latter excluded.
\<close>

theorem SetOffset_bytes:
  assumes "unat k + unat n \<le> L"
  shows "(m_mmap v = Some mm \<longrightarrow>
           (\<exists>v'. SetOffset k n v = Some v' \<and> size_const v' = n
                 \<and> ToString mem v' = take (unat n) (drop (unat k) (read_bytes mem (m_datafile mm) L))))
         \<and> size_const (SetOffset_alloc k n a) = n
         \<and> ToString mem (SetOffset_alloc k n a)
             = take (unat n) (drop (unat k) (read_bytes mem (m_data_allocated a) L))"
  using assms
  by (simp add: SetOffset_def SetOffset_alloc_def size_const_def ToString_def read_bytes_sub)

text \<open>C9 on the two example views over the five bytes at 16, with offset 3 and size 2.\<close>

theorem SetOffset_bytes_witness:
  "unat (3 :: 64 word) + unat (2 :: 64 word) \<le> 5
   \<and> m_mmap (ex_view 0 0) = Some \<lparr>m_fd = 3, m_filesize = 5, m_datafile = 16, m_filepath = ''/db/00000001''\<rparr>
   \<and> read_bytes ex_memory 16 5 = [2, 97, 98, 1, 99]
   \<and> (\<exists>v'. SetOffset 3 2 (ex_view 0 0) = Some v' \<and> size_const v' = 2 \<and> ToString ex_memory v' = [1, 99])
   \<and> size_const (SetOffset_alloc 3 2 ex_shared) = 2
   \<and> ToString ex_memory (SetOffset_alloc 3 2 ex_shared) = [1, 99]"
proof -
  have h: "unat (3 :: 64 word) + unat (2 :: 64 word) \<le> 5" by simp
  have mm: "m_mmap (ex_view 0 0) = Some \<lparr>m_fd = 3, m_filesize = 5, m_datafile = 16, m_filepath = ''/db/00000001''\<rparr>"
    by (simp add: ex_view_def)
  have rd: "read_bytes ex_memory 16 5 = [2, 97, 98, 1, 99]" by code_simp
  have al: "m_data_allocated ex_shared = 16"
    by (simp add: ex_shared_def SharedAllocatedByteArray_ctor_def)
  have sub: "take (unat (2 :: 64 word)) (drop (unat (3 :: 64 word)) [2, 97, 98, 1, 99 :: byte]) = [1, 99]"
    by simp
  from SetOffset_bytes [OF h, of "ex_view 0 0"
      "\<lparr>m_fd = 3, m_filesize = 5, m_datafile = 16, m_filepath = ''/db/00000001''\<rparr>"
      ex_memory ex_shared] mm rd al sub h
  show ?thesis by simp
qed


section \<open>Equality of views\<close>

text \<open>
  C10. For any two views \<open>a\<close> and \<open>b\<close> over one memory, \<^verbatim>\<open>a == b\<close> is true exactly when
  the sizes are equal and the first \<^verbatim>\<open>a.size()\<close> bytes of \<open>a\<close> equal the corresponding
  bytes of \<open>b\<close>. The comparison runs over all \<^verbatim>\<open>size_\<close> bytes whatever their values, NUL
  included; it is reflexive and symmetric.
\<close>

theorem ByteArray_eq_content:
  "(ByteArray_eq m a b \<longleftrightarrow>
      size_const a = size_const b \<and>
      read_bytes m (data a) (unat (size_const a)) = read_bytes m (data b) (unat (size_const a)))
   \<and> ByteArray_eq m a a
   \<and> (ByteArray_eq m a b \<longleftrightarrow> ByteArray_eq m b a)"
  by (auto simp: ByteArray_eq_def size_const_def data_const_def data_def memcmp_zero_iff)

end
